theory Spec2Isabelle
  imports Main
begin

section \<open>Shared types (src/types/index.ts)\<close>

record Chat =
  jid :: string
  name :: string
  lastMessage :: string
  lastMessageAt :: int
  unreadCount :: int
  isGroup :: bool

datatype MessageStatus = Pending | Sent | Delivered | Read | Error

datatype MessageType =
  Text | Image | Video | Audio | Document | Sticker | Contact | Location | Reaction | Unknown

datatype ConnectionState = Disconnected | Connecting | QRReady | Connected

text \<open>The field \<open>id\<close> of the interface is \<open>msg_id\<close> here and \<open>type\<close> is \<open>mtype\<close>.\<close>

record Message =
  msg_id :: string
  chatJid :: string
  senderJid :: string
  senderName :: string
  body :: string
  timestamp :: int
  isFromMe :: bool
  status :: MessageStatus
  mtype :: MessageType

section \<open>The SQLite store (services/store.ts)\<close>

text \<open>
  A table is the list of its rows in rowid order, each row paired with its primary key.
  Columns keep their SQL names; \<open>name\<close> and \<open>notify\<close> of \<open>contacts\<close> carry the prefix
  \<open>ct\<close> (the alias of the table in \<open>getAllChats\<close>), \<open>name\<close> of \<open>chats\<close> the prefix \<open>c\<close>,
  and the columns of \<open>messages\<close> that clash with fields of \<open>Message\<close> the prefix \<open>m\<close>.
  Timestamps and counters are SQLite INTEGERs. The table \<open>auth_keys\<close> is left out.
\<close>

record contacts_row =
  ct_name :: string
  ct_notify :: string

record chats_row =
  c_name :: string
  last_message :: string
  last_message_at :: int
  unread_count :: int
  is_group :: int

record messages_row =
  chat_jid :: string
  sender_jid :: string
  sender_name :: string
  m_body :: string
  m_timestamp :: int
  is_from_me :: int
  m_status :: MessageStatus
  m_type :: MessageType

record store =
  contacts :: "(string \<times> contacts_row) list"
  chats :: "(string \<times> chats_row) list"
  messages :: "(string \<times> messages_row) list"

definition empty_store :: store where
  "empty_store = \<lparr>contacts = [], chats = [], messages = []\<rparr>"

subsection \<open>The three kinds of write statement\<close>

text \<open>\<open>INSERT ... ON CONFLICT(key) DO UPDATE SET ...\<close>: the row with the key is updated
  in place; without one, the new row is appended.\<close>

fun insert_on_conflict_update ::
  "'k \<Rightarrow> 'v \<Rightarrow> ('v \<Rightarrow> 'v) \<Rightarrow> ('k \<times> 'v) list \<Rightarrow> ('k \<times> 'v) list" where
  "insert_on_conflict_update k new upd [] = [(k, new)]"
| "insert_on_conflict_update k new upd ((k', v) # rows) =
     (if k' = k then (k', upd v) # rows
      else (k', v) # insert_on_conflict_update k new upd rows)"

text \<open>\<open>INSERT OR REPLACE\<close>: the conflicting row is deleted, the new row is appended.\<close>

definition insert_or_replace :: "'k \<Rightarrow> 'v \<Rightarrow> ('k \<times> 'v) list \<Rightarrow> ('k \<times> 'v) list" where
  "insert_or_replace k new rows = filter (\<lambda>(k', v). k' \<noteq> k) rows @ [(k, new)]"

text \<open>\<open>UPDATE ... SET ... WHERE key = ?\<close>.\<close>

definition update_where :: "'k \<Rightarrow> ('v \<Rightarrow> 'v) \<Rightarrow> ('k \<times> 'v) list \<Rightarrow> ('k \<times> 'v) list" where
  "update_where k upd rows = map (\<lambda>(k', v). if k' = k then (k', upd v) else (k', v)) rows"

subsection \<open>Contact operations\<close>

definition upsertContact :: "string \<Rightarrow> string \<Rightarrow> string \<Rightarrow> store \<Rightarrow> store" where
  "upsertContact j nm ntfy s =
     s\<lparr>contacts := insert_on_conflict_update j
          \<lparr>ct_name = nm, ct_notify = ntfy\<rparr>
          (\<lambda>old. \<lparr>ct_name = (if nm \<noteq> [] then nm else ct_name old),
                   ct_notify = (if ntfy \<noteq> [] then ntfy else ct_notify old)\<rparr>)
          (contacts s)\<rparr>"

text \<open>JavaScript's \<open>a || b\<close> on strings: the empty string is falsy.\<close>

definition str_or :: "string \<Rightarrow> string \<Rightarrow> string" where
  "str_or a b = (if a \<noteq> [] then a else b)"

definition getContactName :: "store \<Rightarrow> string \<Rightarrow> string option" where
  "getContactName s j =
     (case map_of (contacts s) j of
        None \<Rightarrow> None
      | Some row \<Rightarrow>
          (if ct_name row \<noteq> [] then Some (ct_name row)
           else if ct_notify row \<noteq> [] then Some (ct_notify row)
           else None))"

subsection \<open>Chat operations\<close>

definition upsertChat :: "Chat \<Rightarrow> store \<Rightarrow> store" where
  "upsertChat chat s =
     s\<lparr>chats := insert_on_conflict_update (jid chat)
          \<lparr>c_name = name chat, last_message = lastMessage chat,
           last_message_at = lastMessageAt chat, unread_count = unreadCount chat,
           is_group = (if isGroup chat then 1 else 0)\<rparr>
          (\<lambda>old.
             \<lparr>c_name = (if name chat \<noteq> [] then name chat else c_name old),
              last_message =
                (if lastMessageAt chat > last_message_at old then lastMessage chat
                 else last_message old),
              last_message_at = max (lastMessageAt chat) (last_message_at old),
              unread_count = unreadCount chat,
              is_group = (if isGroup chat then 1 else 0)\<rparr>)
          (chats s)\<rparr>"

text \<open>
  \<open>getAllChats\<close>: the left join reads the contact row of the chat's key, if any;
  \<open>COALESCE(NULLIF(ct.name, ''), NULLIF(ct.notify, ''), '')\<close> is the first non-empty of the
  two contact names, else the empty string. SQLite leaves the order of rows with equal
  \<open>last_message_at\<close> open; here they stay in rowid order.
\<close>

definition contact_name :: "store \<Rightarrow> string \<Rightarrow> string" where
  "contact_name s j =
     (case map_of (contacts s) j of
        None \<Rightarrow> []
      | Some ct \<Rightarrow>
          (if ct_name ct \<noteq> [] then ct_name ct
           else if ct_notify ct \<noteq> [] then ct_notify ct
           else []))"

definition chat_of_row :: "store \<Rightarrow> string \<times> chats_row \<Rightarrow> Chat" where
  "chat_of_row s = (\<lambda>(j, row).
     \<lparr>jid = j,
      name = str_or (contact_name s j) (c_name row),
      lastMessage = last_message row,
      lastMessageAt = last_message_at row,
      unreadCount = unread_count row,
      isGroup = (is_group row = 1)\<rparr>)"

definition getAllChats :: "store \<Rightarrow> Chat list" where
  "getAllChats s =
     map (chat_of_row s) (sort_key (\<lambda>(j, row). - last_message_at row) (chats s))"

definition updateChatName :: "string \<Rightarrow> string \<Rightarrow> store \<Rightarrow> store" where
  "updateChatName j nm s = s\<lparr>chats := update_where j (\<lambda>row. row\<lparr>c_name := nm\<rparr>) (chats s)\<rparr>"

definition resetUnreadCount :: "string \<Rightarrow> store \<Rightarrow> store" where
  "resetUnreadCount j s =
     s\<lparr>chats := update_where j (\<lambda>row. row\<lparr>unread_count := 0\<rparr>) (chats s)\<rparr>"

definition incrementUnreadCount :: "string \<Rightarrow> store \<Rightarrow> store" where
  "incrementUnreadCount j s =
     s\<lparr>chats := update_where j (\<lambda>row. row\<lparr>unread_count := unread_count row + 1\<rparr>) (chats s)\<rparr>"

subsection \<open>Message operations\<close>

text \<open>The values that \<open>upsertMessage\<close> binds to the columns.\<close>

definition message_row :: "Message \<Rightarrow> messages_row" where
  "message_row msg =
     \<lparr>chat_jid = chatJid msg, sender_jid = senderJid msg,
      sender_name = senderName msg, m_body = body msg,
      m_timestamp = timestamp msg,
      is_from_me = (if isFromMe msg then 1 else 0),
      m_status = status msg, m_type = mtype msg\<rparr>"

definition upsertMessage :: "Message \<Rightarrow> store \<Rightarrow> store" where
  "upsertMessage msg s =
     s\<lparr>messages := insert_or_replace (msg_id msg) (message_row msg) (messages s)\<rparr>"

text \<open>What is stored for a key: the two names of a contact, the preview and the
  timestamp of a conversation.\<close>

definition stored_name :: "store \<Rightarrow> string \<Rightarrow> string option" where
  "stored_name s j = map_option ct_name (map_of (contacts s) j)"

definition stored_notify :: "store \<Rightarrow> string \<Rightarrow> string option" where
  "stored_notify s j = map_option ct_notify (map_of (contacts s) j)"

definition stored_preview :: "store \<Rightarrow> string \<Rightarrow> (string \<times> int) option" where
  "stored_preview s j =
     map_option (\<lambda>row. (last_message row, last_message_at row)) (map_of (chats s) j)"

text \<open>The first non-empty string of a list, the empty string when there is none.\<close>

fun first_non_empty :: "string list \<Rightarrow> string" where
  "first_non_empty [] = []"
| "first_non_empty (x # xs) = (if x \<noteq> [] then x else first_non_empty xs)"

text \<open>The number of rows of \<open>messages\<close> that belong to a conversation.\<close>

definition message_count :: "store \<Rightarrow> string \<Rightarrow> nat" where
  "message_count s c = length (filter (\<lambda>(i, row). chat_jid row = c) (messages s))"

section \<open>Helpers (utils/formatters.ts)\<close>

text \<open>\<open>jid.split('@')[0]\<close> is the part of the identifier before its first \<open>@\<close>.\<close>

definition jidToPhoneNumber :: "string \<Rightarrow> string" where
  "jidToPhoneNumber j =
     (let number = takeWhile (\<lambda>ch. ch \<noteq> CHR ''@'') j
      in if number \<noteq> [] then CHR ''+'' # number else j)"

definition isGroupJid :: "string \<Rightarrow> bool" where
  "isGroupJid j \<longleftrightarrow> 5 \<le> length j \<and> drop (length j - 5) j = ''@g.us''"

section \<open>JavaScript values\<close>

text \<open>An optional string is truthy when it is present and not empty; \<open>a || b\<close> and
  \<open>a ?? b\<close> on options; numbers in template strings are printed in decimal.\<close>

definition truthy :: "string option \<Rightarrow> bool" where
  "truthy a \<longleftrightarrow> (case a of None \<Rightarrow> False | Some x \<Rightarrow> x \<noteq> [])"

definition opt_or :: "string option \<Rightarrow> string \<Rightarrow> string" where
  "opt_or a b = (if truthy a then the a else b)"

definition or_else :: "'a option \<Rightarrow> 'a option \<Rightarrow> 'a option" where
  "or_else a b = (case a of Some x \<Rightarrow> Some x | None \<Rightarrow> b)"

fun show_nat :: "nat \<Rightarrow> string" where
  "show_nat n =
     (if n < 10 then [''0123456789'' ! n]
      else show_nat (n div 10) @ [''0123456789'' ! (n mod 10)])"

definition show_int :: "int \<Rightarrow> string" where
  "show_int i = (if i < 0 then CHR ''-'' # show_nat (nat (- i)) else show_nat (nat i))"

definition MessageType_str :: "MessageType \<Rightarrow> string" where
  "MessageType_str t =
     (case t of Text \<Rightarrow> ''text'' | Image \<Rightarrow> ''image'' | Video \<Rightarrow> ''video''
      | Audio \<Rightarrow> ''audio'' | Document \<Rightarrow> ''document'' | Sticker \<Rightarrow> ''sticker''
      | Contact \<Rightarrow> ''contact'' | Location \<Rightarrow> ''location'' | Reaction \<Rightarrow> ''reaction''
      | Unknown \<Rightarrow> ''unknown'')"

section \<open>Message content (the protocol library's \<open>WAMessageContent\<close>)\<close>

text \<open>
  The content object has one optional field per kind of message. Six of them are wrappers
  with a nested \<open>message\<close>; \<open>protocolMessage\<close> has a \<open>type\<close> and, for an edit, an
  \<open>editedMessage\<close>. The fields that hold no nested content are gathered in the record
  \<open>leaf\<close>, each reduced to what \<open>extractContent\<close> reads of it: a flag for a sub-message
  that is only tested for presence, and otherwise the option of the field read
  (\<open>text\<close>, \<open>caption\<close>, \<open>ptt\<close>, \<open>fileName\<close>, \<open>displayName\<close>, \<open>contacts.length\<close>, \<open>name\<close>,
  \<open>(title, description)\<close>, \<open>contentText\<close>, \<open>groupName\<close>, \<open>(body.text, header.title)\<close>).
\<close>

record leaf =
  senderKeyDistributionMessage :: bool
  conversation :: "string option"
  extendedTextMessage :: "string option option"
  imageMessage :: "string option option"
  videoMessage :: "string option option"
  audioMessage :: "bool option option"
  documentMessage :: "string option option"
  stickerMessage :: bool
  contactMessage :: "string option option"
  contactsArrayMessage :: "nat option option"
  locationMessage :: bool
  liveLocationMessage :: bool
  reactionMessage :: "string option option"
  pollCreationMessage :: "string option option"
  pollCreationMessageV2 :: "string option option"
  pollCreationMessageV3 :: "string option option"
  pollUpdateMessage :: bool
  listMessage :: "(string option \<times> string option) option"
  buttonsMessage :: "string option option"
  templateMessage :: bool
  groupInviteMessage :: "string option option"
  interactiveMessage :: "(string option \<times> string option) option"
  orderMessage :: bool
  paymentInviteMessage :: bool
  pinInChatMessage :: bool
  keepInChatMessage :: bool

datatype content = Content
    (ephemeralMessage: "future_proof_message option")
    (viewOnceMessage: "future_proof_message option")
    (viewOnceMessageV2: "future_proof_message option")
    (viewOnceMessageV2Extension: "future_proof_message option")
    (documentWithCaptionMessage: "future_proof_message option")
    (editedMessage: "future_proof_message option")
    (protocolMessage: "protocol_message option")
    (leaf: leaf)
and future_proof_message = FutureProofMessage (fp_message: "content option")
and protocol_message =
  ProtocolMessage (ptype: "int option") (pm_editedMessage: "content option")

definition no_leaf :: leaf where
  "no_leaf =
     \<lparr>senderKeyDistributionMessage = False, conversation = None,
      extendedTextMessage = None, imageMessage = None, videoMessage = None,
      audioMessage = None, documentMessage = None, stickerMessage = False,
      contactMessage = None, contactsArrayMessage = None, locationMessage = False,
      liveLocationMessage = False, reactionMessage = None, pollCreationMessage = None,
      pollCreationMessageV2 = None, pollCreationMessageV3 = None,
      pollUpdateMessage = False, listMessage = None, buttonsMessage = None,
      templateMessage = False, groupInviteMessage = None, interactiveMessage = None,
      orderMessage = False, paymentInviteMessage = False, pinInChatMessage = False,
      keepInChatMessage = False\<rparr>"

text \<open>Content with leaf fields only, and content that is one wrapper or one protocol
  message.\<close>

definition leaf_content :: "leaf \<Rightarrow> content" where
  "leaf_content l = Content None None None None None None None l"





section \<open>The service (services/whatsapp.ts)\<close>

subsection \<open>extractContent\<close>

text \<open>\<open>w?.message\<close> of a wrapper field.\<close>

definition inner_of :: "future_proof_message option \<Rightarrow> content option" where
  "inner_of w = (case w of None \<Rightarrow> None | Some fp \<Rightarrow> fp_message fp)"

definition innerMessage :: "content \<Rightarrow> content option" where
  "innerMessage c =
     or_else (inner_of (ephemeralMessage c))
    (or_else (inner_of (viewOnceMessage c))
    (or_else (inner_of (viewOnceMessageV2 c))
    (or_else (inner_of (viewOnceMessageV2Extension c))
    (or_else (inner_of (documentWithCaptionMessage c))
             (inner_of (editedMessage c))))))"

text \<open>The emoji of the placeholders, as their UTF-8 bytes.\<close>

definition emoji :: "string \<Rightarrow> string" where
  "emoji what =
     (if what = ''camera'' then [CHR 0xF0, CHR 0x9F, CHR 0x93, CHR 0xB7]
      else if what = ''movie camera'' then [CHR 0xF0, CHR 0x9F, CHR 0x8E, CHR 0xA5]
      else if what = ''microphone'' then [CHR 0xF0, CHR 0x9F, CHR 0x8E, CHR 0xA4]
      else if what = ''musical note'' then [CHR 0xF0, CHR 0x9F, CHR 0x8E, CHR 0xB5]
      else if what = ''page facing up'' then [CHR 0xF0, CHR 0x9F, CHR 0x93, CHR 0x84]
      else if what = ''label''
        then [CHR 0xF0, CHR 0x9F, CHR 0x8F, CHR 0xB7, CHR 0xEF, CHR 0xB8, CHR 0x8F]
      else if what = ''bust'' then [CHR 0xF0, CHR 0x9F, CHR 0x91, CHR 0xA4]
      else if what = ''busts'' then [CHR 0xF0, CHR 0x9F, CHR 0x91, CHR 0xA5]
      else if what = ''round pushpin'' then [CHR 0xF0, CHR 0x9F, CHR 0x93, CHR 0x8D]
      else if what = ''red heart''
        then [CHR 0xE2, CHR 0x9D, CHR 0xA4, CHR 0xEF, CHR 0xB8, CHR 0x8F]
      else if what = ''bar chart'' then [CHR 0xF0, CHR 0x9F, CHR 0x93, CHR 0x8A]
      else if what = ''clipboard'' then [CHR 0xF0, CHR 0x9F, CHR 0x93, CHR 0x8B]
      else if what = ''radio button'' then [CHR 0xF0, CHR 0x9F, CHR 0x94, CHR 0x98]
      else if what = ''memo'' then [CHR 0xF0, CHR 0x9F, CHR 0x93, CHR 0x9D]
      else if what = ''incoming envelope'' then [CHR 0xF0, CHR 0x9F, CHR 0x93, CHR 0xA8]
      else if what = ''black square button'' then [CHR 0xF0, CHR 0x9F, CHR 0x94, CHR 0xB2]
      else if what = ''shopping cart'' then [CHR 0xF0, CHR 0x9F, CHR 0x9B, CHR 0x92]
      else if what = ''money bag'' then [CHR 0xF0, CHR 0x9F, CHR 0x92, CHR 0xB0]
      else if what = ''pushpin'' then [CHR 0xF0, CHR 0x9F, CHR 0x93, CHR 0x8C]
      else [CHR 0xF0, CHR 0x9F, CHR 0x92, CHR 0xAC])"

text \<open>The tail of \<open>extractContent\<close>, from the key-distribution check on: the content has
  no wrapper and no protocol message, and the first field present decides.\<close>

definition terminal_content :: "leaf \<Rightarrow> string \<times> MessageType" where
  "terminal_content l =
    (if senderKeyDistributionMessage l \<and> \<not> truthy (conversation l) \<and>
        extendedTextMessage l = None
       then ([], Unknown)
     else if truthy (conversation l) then (the (conversation l), Text)
     else if extendedTextMessage l \<noteq> None \<and> truthy (the (extendedTextMessage l))
       then (the (the (extendedTextMessage l)), Text)
     else if imageMessage l \<noteq> None
       then (opt_or (the (imageMessage l)) (emoji ''camera'' @ '' Photo''), Image)
     else if videoMessage l \<noteq> None
       then (opt_or (the (videoMessage l)) (emoji ''movie camera'' @ '' Video''), Video)
     else if audioMessage l \<noteq> None
       then (if the (audioMessage l) = Some True
             then emoji ''microphone'' @ '' Voice message''
             else emoji ''musical note'' @ '' Audio'', Audio)
     else if documentMessage l \<noteq> None
       then (opt_or (the (documentMessage l)) (emoji ''page facing up'' @ '' Document''),
             Document)
     else if stickerMessage l then (emoji ''label'' @ '' Sticker'', Sticker)
     else if contactMessage l \<noteq> None
       then (opt_or (the (contactMessage l)) (emoji ''bust'' @ '' Contact''), Contact)
     else if contactsArrayMessage l \<noteq> None
       then (emoji ''busts'' @ '' '' @
               show_nat (case the (contactsArrayMessage l) of None \<Rightarrow> 0 | Some n \<Rightarrow> n) @
               '' contacts'', Contact)
     else if locationMessage l then (emoji ''round pushpin'' @ '' Location'', Location)
     else if liveLocationMessage l
       then (emoji ''round pushpin'' @ '' Live location'', Location)
     else if reactionMessage l \<noteq> None
       then (opt_or (the (reactionMessage l)) (emoji ''red heart''), Reaction)
     else if or_else (pollCreationMessage l)
               (or_else (pollCreationMessageV2 l) (pollCreationMessageV3 l)) \<noteq> None
       then (let poll = or_else (pollCreationMessage l)
                         (or_else (pollCreationMessageV2 l) (pollCreationMessageV3 l))
             in (emoji ''bar chart'' @ '' Poll: '' @ opt_or (the poll) ''Poll'', Text))
     else if pollUpdateMessage l then (emoji ''bar chart'' @ '' Poll vote'', Text)
     else if listMessage l \<noteq> None
       then (let (title, description) = the (listMessage l)
             in (opt_or title (opt_or description (emoji ''clipboard'' @ '' List'')), Text))
     else if buttonsMessage l \<noteq> None
       then (opt_or (the (buttonsMessage l)) (emoji ''radio button'' @ '' Buttons''), Text)
     else if templateMessage l then (emoji ''memo'' @ '' Template'', Text)
     else if groupInviteMessage l \<noteq> None
       then (emoji ''incoming envelope'' @ '' Group invite: '' @
               opt_or (the (groupInviteMessage l)) ''Group'', Text)
     else if interactiveMessage l \<noteq> None
       then (let (body_text, header_title) = the (interactiveMessage l)
             in (opt_or body_text
                   (opt_or header_title
                      (emoji ''black square button'' @ '' Interactive message'')), Text))
     else if orderMessage l then (emoji ''shopping cart'' @ '' Order'', Text)
     else if paymentInviteMessage l then (emoji ''money bag'' @ '' Payment'', Text)
     else if pinInChatMessage l then (emoji ''pushpin'' @ '' Pinned a message'', Text)
     else if keepInChatMessage l then (emoji ''pushpin'' @ '' Kept a message'', Text)
     else (emoji ''speech balloon'' @ '' [Unsupported message]'', Unknown))"

function extractContent :: "content option \<Rightarrow> string \<times> MessageType" where
  "extractContent None = ([], Unknown)"
| "extractContent (Some c) =
     (case innerMessage c of
        Some m \<Rightarrow> extractContent (Some m)
      | None \<Rightarrow>
         (case protocolMessage c of
            Some pm \<Rightarrow>
              (if ptype pm = Some 14 \<and> pm_editedMessage pm \<noteq> None
               then extractContent (pm_editedMessage pm)
               else ([], Unknown))
          | None \<Rightarrow> terminal_content (leaf c)))"
  by pat_completeness auto

termination
proof (relation "measure (\<lambda>c. case c of None \<Rightarrow> 0 | Some c' \<Rightarrow> size c')")
  have fp: "size m < size x" if "fp_message x = Some m" for x m
    using that by (cases x) auto
  have inner: "size m < size_option size w" if "inner_of w = Some m" for w m
    using that by (cases w) (auto simp: inner_of_def dest: fp)
  show "wf (measure (\<lambda>c. case c of None \<Rightarrow> 0 | Some c' \<Rightarrow> size c'))"
    by simp
  show "(Some m, Some c) \<in> measure (\<lambda>c. case c of None \<Rightarrow> 0 | Some c' \<Rightarrow> size c')"
    if "innerMessage c = Some m" for c m
  proof -
    from that have "size m < size c"
      by (cases c)
         (auto simp: innerMessage_def or_else_def split: option.splits dest!: inner)
    then show ?thesis by simp
  qed
  show "(pm_editedMessage pm, Some c)
      \<in> measure (\<lambda>c. case c of None \<Rightarrow> 0 | Some c' \<Rightarrow> size c')"
    if "innerMessage c = None" "protocolMessage c = Some pm"
      "ptype pm = Some 14 \<and> pm_editedMessage pm \<noteq> None" for c pm
    using that by (cases c; cases pm) auto
qed

subsection \<open>parseMessage\<close>

text \<open>
  A message of the protocol library, with the fields the service reads. \<open>key\<close> is
  always there (the handler of \<open>messages.upsert\<close> reads \<open>msg.key.remoteJid\<close> unguarded);
  \<open>key.id\<close> is \<open>key_id\<close> and \<open>status\<close> is \<open>wa_status\<close>. \<open>messageTimestamp\<close> is a number or a \<open>Long\<close>
  object (seconds); only the number zero is falsy.
\<close>

record WAMessageKey =
  remoteJid :: "string option"
  fromMe :: "bool option"
  key_id :: "string option"
  participant :: "string option"

datatype message_timestamp = TsNumber int | TsLong int

record WAMessage =
  key :: WAMessageKey
  messageTimestamp :: "message_timestamp option"
  pushName :: "string option"
  message :: "content option"
  wa_status :: "int option"

definition mapStatus :: "int option \<Rightarrow> MessageStatus" where
  "mapStatus st =
     (if st = Some 0 then Error
      else if st = Some 1 then Pending
      else if st = Some 2 then Sent
      else if st = Some 3 then Delivered
      else if st = Some 4 then Read
      else Sent)"

text \<open>\<open>now\<close> is the reading of \<open>Date.now()\<close>.\<close>

definition parseMessage :: "int \<Rightarrow> WAMessage \<Rightarrow> Message option" where
  "parseMessage now msg =
     (if \<not> truthy (remoteJid (key msg)) then None
      else
        let chatJid' = the (remoteJid (key msg));
            isFromMe' = (case fromMe (key msg) of None \<Rightarrow> False | Some b \<Rightarrow> b);
            senderJid' =
              (if isFromMe' then ''me''
               else opt_or (participant (key msg)) (opt_or (remoteJid (key msg)) []));
            timestamp' =
              (case messageTimestamp msg of
                 None \<Rightarrow> now
               | Some (TsNumber n) \<Rightarrow> (if n = 0 then now else n * 1000)
               | Some (TsLong n) \<Rightarrow> n * 1000);
            (body', type') = extractContent (message msg);
            senderName' =
              (if isFromMe' then ''You''
               else if truthy (pushName msg) then the (pushName msg)
               else jidToPhoneNumber senderJid')
        in Some \<lparr>msg_id =
                    (case key_id (key msg) of
                       None \<Rightarrow> ''msg-'' @ show_int timestamp'
                     | Some i \<Rightarrow> i),
                  chatJid = chatJid', senderJid = senderJid', senderName = senderName',
                  body = body', timestamp = timestamp', isFromMe = isFromMe',
                  status = mapStatus (wa_status msg), mtype = type'\<rparr>)"

subsection \<open>The service object\<close>

text \<open>
  The state of a \<open>WhatsAppService\<close>, with the database of the store module: whether
  \<open>sock\<close> is set, the retry counter, the time at which the pending debounce timer is due,
  the signals emitted so far with the time of each emission, and the delays of the
  reconnect timers set so far. Every handler runs at a time \<open>now\<close> (milliseconds).
\<close>

datatype signal =
  ConnectionStateSignal ConnectionState
| QrSignal string
| ReadySignal
| MessageSignal Message
| ChatsChangedSignal

record service =
  sock :: bool
  retryCount :: nat
  chatUpdateTimer :: "int option"
  db :: store
  emitted :: "(int \<times> signal) list"
  reconnects :: "int list"

definition maxRetries :: nat where
  "maxRetries = 5"

definition new_service :: service where
  "new_service =
     \<lparr>sock = False, retryCount = 0, chatUpdateTimer = None, db = empty_store,
      emitted = [], reconnects = []\<rparr>"

definition emit :: "int \<Rightarrow> signal \<Rightarrow> service \<Rightarrow> service" where
  "emit now sig svc = svc\<lparr>emitted := emitted svc @ [(now, sig)]\<rparr>"

text \<open>The connection state an observer of the signals is in: the last one emitted.\<close>

definition connection_states :: "service \<Rightarrow> ConnectionState list" where
  "connection_states svc =
     concat (map (\<lambda>(t, sig). case sig of ConnectionStateSignal st \<Rightarrow> [st] | _ \<Rightarrow> [])
                 (emitted svc))"

definition current_state :: "service \<Rightarrow> ConnectionState option" where
  "current_state svc =
     (if connection_states svc = [] then None else Some (last (connection_states svc)))"

subsection \<open>notifyChatsChanged\<close>

text \<open>
  \<open>notifyChatsChanged\<close> clears the pending timer and sets a new one of 300 ms.
  \<open>run_due_timer\<close> is the event loop at time \<open>now\<close>: a timer that was not cleared and
  whose delay has elapsed runs its callback, which emits the signal and resets the field.
  \<open>notify_calls\<close> is the event loop over calls of \<open>notifyChatsChanged\<close> at the given
  times.
\<close>

definition notifyChatsChanged :: "int \<Rightarrow> service \<Rightarrow> service" where
  "notifyChatsChanged now svc = svc\<lparr>chatUpdateTimer := Some (now + 300)\<rparr>"

definition run_due_timer :: "int \<Rightarrow> service \<Rightarrow> service" where
  "run_due_timer now svc =
     (case chatUpdateTimer svc of
        None \<Rightarrow> svc
      | Some due \<Rightarrow>
          (if due \<le> now then (emit due ChatsChangedSignal svc)\<lparr>chatUpdateTimer := None\<rparr>
           else svc))"

definition notify_calls :: "int list \<Rightarrow> service \<Rightarrow> service" where
  "notify_calls ts svc = fold (\<lambda>t svc'. notifyChatsChanged t (run_due_timer t svc')) ts svc"

text \<open>The times at which the debounced signal was emitted.\<close>

definition chats_changed_times :: "service \<Rightarrow> int list" where
  "chats_changed_times svc =
     map fst (filter (\<lambda>(t, sig). sig = ChatsChangedSignal) (emitted svc))"

text \<open>Calls at non-decreasing times, each less than 300 ms after the one before.\<close>

fun rapid :: "int list \<Rightarrow> bool" where
  "rapid [] \<longleftrightarrow> True"
| "rapid [t] \<longleftrightarrow> True"
| "rapid (t # u # ts) \<longleftrightarrow> t \<le> u \<and> u - t < 300 \<and> rapid (u # ts)"

subsection \<open>The handler of \<open>connection.update\<close>\<close>

text \<open>\<open>statusCode\<close> is \<open>lastDisconnect?.error?.output?.statusCode\<close>;
  \<open>DisconnectReason.loggedOut\<close> is 401 in the protocol library.\<close>

datatype WAConnectionState = ConnOpen | ConnConnecting | ConnClose

record ConnectionUpdate =
  connection :: "WAConnectionState option"
  statusCode :: "int option"
  qr :: "string option"

definition loggedOut :: int where
  "loggedOut = 401"

definition on_close :: "int \<Rightarrow> ConnectionUpdate \<Rightarrow> service \<Rightarrow> service" where
  "on_close now u svc =
     (let shouldReconnect = (statusCode u \<noteq> Some loggedOut)
      in if shouldReconnect \<and> retryCount svc < maxRetries
         then
           let svc1 = svc\<lparr>retryCount := retryCount svc + 1\<rparr>;
               svc2 = emit now (ConnectionStateSignal Connecting) svc1
           in svc2\<lparr>reconnects :=
                      reconnects svc2 @ [min (1000 * int (retryCount svc2)) 10000]\<rparr>
         else emit now (ConnectionStateSignal Disconnected) svc)"

definition on_connection_update :: "int \<Rightarrow> ConnectionUpdate \<Rightarrow> service \<Rightarrow> service" where
  "on_connection_update now u svc =
     (let svc1 = (if truthy (qr u)
                  then emit now (QrSignal (the (qr u)))
                         (emit now (ConnectionStateSignal QRReady) svc)
                  else svc);
          svc2 = (if connection u = Some ConnClose then on_close now u svc1 else svc1)
      in if connection u = Some ConnOpen
         then emit now ReadySignal
                (emit now (ConnectionStateSignal Connected) (svc2\<lparr>retryCount := 0\<rparr>))
         else svc2)"

text \<open>A close with the given status code, and a run of closes.\<close>

definition close_update :: "int option \<Rightarrow> ConnectionUpdate" where
  "close_update code = \<lparr>connection = Some ConnClose, statusCode = code, qr = None\<rparr>"

definition closes :: "int \<Rightarrow> int option list \<Rightarrow> service \<Rightarrow> service" where
  "closes now codes svc = fold (\<lambda>code. on_connection_update now (close_update code)) codes svc"

subsection \<open>The handler of \<open>messages.upsert\<close>\<close>

definition upsert_one :: "int \<Rightarrow> WAMessage \<Rightarrow> service \<Rightarrow> service" where
  "upsert_one now msg svc =
     (if \<not> truthy (remoteJid (key msg)) then svc
      else if remoteJid (key msg) = Some ''status@broadcast'' then svc
      else
        case parseMessage now msg of
          None \<Rightarrow> svc
        | Some parsed \<Rightarrow>
            if body parsed = [] then svc
            else
              let s1 =
                    (if \<not> isFromMe parsed \<and> truthy (pushName msg)
                     then
                       let senderJid' =
                             opt_or (participant (key msg)) (opt_or (remoteJid (key msg)) [])
                       in if senderJid' \<noteq> [] \<and> senderJid' \<noteq> ''status@broadcast''
                          then upsertContact senderJid' [] (the (pushName msg)) (db svc)
                          else db svc
                     else db svc);
                  chatJid' = chatJid parsed;
                  resolvedName =
                    opt_or (getContactName s1 chatJid')
                      (str_or (senderName parsed) (jidToPhoneNumber chatJid'));
                  chat =
                    \<lparr>jid = chatJid',
                     name = (if isFromMe parsed then opt_or (getContactName s1 chatJid') []
                             else resolvedName),
                     lastMessage =
                       str_or (body parsed) (''['' @ MessageType_str (mtype parsed) @ '']''),
                     lastMessageAt = timestamp parsed,
                     unreadCount = 0,
                     isGroup = isGroupJid chatJid'\<rparr>;
                  s2 = upsertChat chat s1;
                  s3 = upsertMessage parsed s2;
                  s4 = (if \<not> isFromMe parsed then incrementUnreadCount chatJid' s3 else s3)
              in notifyChatsChanged now (emit now (MessageSignal parsed) (svc\<lparr>db := s4\<rparr>)))"

definition messages_upsert :: "int \<Rightarrow> WAMessage list \<Rightarrow> service \<Rightarrow> service" where
  "messages_upsert now msgs svc = fold (upsert_one now) msgs svc"

text \<open>The unread counter stored for a conversation.\<close>

definition unread_of :: "service \<Rightarrow> string \<Rightarrow> int option" where
  "unread_of svc j = map_option unread_count (map_of (chats (db svc)) j)"

subsection \<open>sendMessage\<close>

text \<open>What \<open>sock.sendMessage\<close> does: it throws, or it returns a message or \<open>undefined\<close>.\<close>

datatype send_outcome = Throws | Returns "WAMessage option"

definition sendMessage ::
  "int \<Rightarrow> send_outcome \<Rightarrow> string \<Rightarrow> string \<Rightarrow> service \<Rightarrow> Message option \<times> service" where
  "sendMessage now outcome j msg_text svc =
     (if \<not> sock svc then (None, svc)
      else
        case outcome of
          Throws \<Rightarrow> (None, svc)
        | Returns None \<Rightarrow> (None, svc)
        | Returns (Some sent) \<Rightarrow>
            let msg =
                  \<lparr>msg_id = opt_or (key_id (key sent)) (''local-'' @ show_int now),
                   chatJid = j, senderJid = ''me'', senderName = ''You'', body = msg_text,
                   timestamp = now, isFromMe = True, status = Sent, mtype = Text\<rparr>;
                s1 = upsertMessage msg (db svc);
                chat =
                  \<lparr>jid = j, name = [], lastMessage = msg_text, lastMessageAt = timestamp msg,
                   unreadCount = 0, isGroup = isGroupJid j\<rparr>;
                s2 = upsertChat chat s1
            in (Some msg, svc\<lparr>db := s2\<rparr>))"

section \<open>Example inputs\<close>

text \<open>A chat as the preview update of a text writes it, content that is plain text,
  a stored text message, a text message of the protocol library (from the owner or not),
  and a service whose socket is set.\<close>

definition preview_chat :: "string \<Rightarrow> string \<Rightarrow> int \<Rightarrow> Chat" where
  "preview_chat j p t =
     \<lparr>jid = j, name = [], lastMessage = p, lastMessageAt = t, unreadCount = 0,
      isGroup = False\<rparr>"

definition text_content :: "string \<Rightarrow> content" where
  "text_content s = leaf_content (no_leaf\<lparr>conversation := Some s\<rparr>)"

definition text_message :: "string \<Rightarrow> string \<Rightarrow> MessageStatus \<Rightarrow> Message" where
  "text_message i j st =
     \<lparr>msg_id = i, chatJid = j, senderJid = j, senderName = jidToPhoneNumber j,
      body = ''hi'', timestamp = 1000, isFromMe = False, status = st, mtype = Text\<rparr>"

definition wa_text :: "bool \<Rightarrow> string \<Rightarrow> string \<Rightarrow> string \<Rightarrow> int \<Rightarrow> WAMessage" where
  "wa_text me j i s t =
     \<lparr>key = \<lparr>remoteJid = Some j, fromMe = Some me, key_id = Some i, participant = None\<rparr>,
      messageTimestamp = Some (TsNumber t), pushName = None,
      message = Some (text_content s), wa_status = None\<rparr>"

definition connected_service :: service where
  "connected_service = new_service\<lparr>sock := True\<rparr>"

section \<open>The store: contacts, chats, messages\<close>

lemma map_of_insert_on_conflict_update:
  "map_of (insert_on_conflict_update k new upd rows) k' =
     (if k' = k then Some (case map_of rows k of None \<Rightarrow> new | Some v \<Rightarrow> upd v)
      else map_of rows k')"
  by (induction rows) auto

lemma insert_on_conflict_update_idem:
  assumes "upd new = new" and "\<And>v. upd (upd v) = upd v"
  shows "insert_on_conflict_update k new upd (insert_on_conflict_update k new upd rows) =
         insert_on_conflict_update k new upd rows"
  using assms by (induction rows) auto

lemma stored_name_upsertContact:
  "stored_name (upsertContact j nm ntfy s) j =
     Some (if nm \<noteq> [] then nm else case stored_name s j of None \<Rightarrow> [] | Some a \<Rightarrow> a)"
  by (simp add: stored_name_def upsertContact_def map_of_insert_on_conflict_update
           split: option.splits)

lemma stored_notify_upsertContact:
  "stored_notify (upsertContact j nm ntfy s) j =
     Some (if ntfy \<noteq> [] then ntfy else case stored_notify s j of None \<Rightarrow> [] | Some a \<Rightarrow> a)"
  by (simp add: stored_notify_def upsertContact_def map_of_insert_on_conflict_update
           split: option.splits)

lemma upsertContact_idem:
  "upsertContact j nm ntfy (upsertContact j nm ntfy s) = upsertContact j nm ntfy s"
  by (simp add: upsertContact_def insert_on_conflict_update_idem)

text \<open>
  Claim C5. \<open>upsertContact\<close> merges each of the two names by itself, and a non-empty
  incoming value wins: an empty incoming addressbook name keeps the stored one, an empty
  incoming notify name keeps the stored one, a non-empty incoming value is stored, the
  name stored in one field does not depend on what comes in for the other, and the same
  upsert applied twice gives the store that one application gives.
\<close>

theorem upsertContact_non_empty_wins:
  "(stored_name s j = Some a \<longrightarrow> stored_name (upsertContact j [] ntfy s) j = Some a) \<and>
   (stored_notify s j = Some b \<longrightarrow> stored_notify (upsertContact j nm [] s) j = Some b) \<and>
   (nm \<noteq> [] \<longrightarrow> stored_name (upsertContact j nm ntfy s) j = Some nm) \<and>
   (ntfy \<noteq> [] \<longrightarrow> stored_notify (upsertContact j nm ntfy s) j = Some ntfy) \<and>
   stored_name (upsertContact j nm ntfy s) j = stored_name (upsertContact j nm ntfy' s) j \<and>
   stored_notify (upsertContact j nm ntfy s) j = stored_notify (upsertContact j nm' ntfy s) j \<and>
   upsertContact j nm ntfy (upsertContact j nm ntfy s) = upsertContact j nm ntfy s"
proof -
  have keep_name: "stored_name (upsertContact j [] ntfy s) j = Some a"
    if "stored_name s j = Some a"
    using that by (simp add: stored_name_upsertContact)
  have keep_notify: "stored_notify (upsertContact j nm [] s) j = Some b"
    if "stored_notify s j = Some b"
    using that by (simp add: stored_notify_upsertContact)
  have win_name: "stored_name (upsertContact j nm ntfy s) j = Some nm" if "nm \<noteq> []"
    using that by (simp add: stored_name_upsertContact)
  have win_notify: "stored_notify (upsertContact j nm ntfy s) j = Some ntfy" if "ntfy \<noteq> []"
    using that by (simp add: stored_notify_upsertContact)
  have name_alone:
    "stored_name (upsertContact j nm ntfy s) j = stored_name (upsertContact j nm ntfy' s) j"
    by (simp add: stored_name_upsertContact)
  have notify_alone:
    "stored_notify (upsertContact j nm ntfy s) j = stored_notify (upsertContact j nm' ntfy s) j"
    by (simp add: stored_notify_upsertContact)
  from keep_name keep_notify win_name win_notify name_alone notify_alone upsertContact_idem
  show ?thesis by blast
qed

text \<open>
  The theorem at a contact stored with both names: an upsert with an empty field keeps
  the stored value of that field.
\<close>

theorem upsertContact_non_empty_wins_witness:
  "stored_name (upsertContact ''A'' ''Alice'' ''ali'' empty_store) ''A'' = Some ''Alice'' \<and>
   stored_notify (upsertContact ''A'' ''Alice'' ''ali'' empty_store) ''A'' = Some ''ali'' \<and>
   ''Al'' \<noteq> [] \<and> ''al'' \<noteq> [] \<and>
   stored_name (upsertContact ''A'' [] ''al''
     (upsertContact ''A'' ''Alice'' ''ali'' empty_store)) ''A'' = Some ''Alice'' \<and>
   stored_notify (upsertContact ''A'' ''Al'' []
     (upsertContact ''A'' ''Alice'' ''ali'' empty_store)) ''A'' = Some ''ali'' \<and>
   stored_name (upsertContact ''A'' ''Al'' ''al''
     (upsertContact ''A'' ''Alice'' ''ali'' empty_store)) ''A'' = Some ''Al'' \<and>
   stored_notify (upsertContact ''A'' ''Al'' ''al''
     (upsertContact ''A'' ''Alice'' ''ali'' empty_store)) ''A'' = Some ''al''"
proof -
  have h: "stored_name (upsertContact ''A'' ''Alice'' ''ali'' empty_store) ''A'' = Some ''Alice''"
    "stored_notify (upsertContact ''A'' ''Alice'' ''ali'' empty_store) ''A'' = Some ''ali''"
    "''Al'' \<noteq> []" "''al'' \<noteq> []"
    by (simp_all add: stored_name_def stored_notify_def upsertContact_def empty_store_def)
  from upsertContact_non_empty_wins
    [of "upsertContact ''A'' ''Alice'' ''ali'' empty_store" "''A''" "''Alice''" "''al''"
        "''ali''" "''Al''"] h
  show ?thesis by blast
qed

lemma stored_preview_upsertChat:
  "stored_preview (upsertChat c s) j =
     (if j = jid c
      then Some (case stored_preview s j of
                   None \<Rightarrow> (lastMessage c, lastMessageAt c)
                 | Some (p0, t0) \<Rightarrow>
                     (if t0 < lastMessageAt c then lastMessage c else p0,
                      max (lastMessageAt c) t0))
      else stored_preview s j)"
  by (simp add: stored_preview_def upsertChat_def map_of_insert_on_conflict_update
           split: option.splits)

text \<open>
  Claim C1, as the code has it. For two upserts of one conversation with timestamps
  \<open>t1 < t2\<close>, both orders leave the same preview and timestamp. Where the conversation
  is not stored yet, or is stored with a timestamp below \<open>t2\<close>, these are the preview of
  the later upsert and \<open>max t1 t2\<close>; where the stored timestamp is \<open>t2\<close> or more, the
  stored preview and timestamp stay. An upsert whose timestamp is not greater than the
  stored one changes neither.
\<close>

theorem upsertChat_order_independent:
  assumes "jid c1 = j" and "jid c2 = j" and "lastMessageAt c1 < lastMessageAt c2"
  shows "stored_preview (upsertChat c2 (upsertChat c1 s)) j =
           stored_preview (upsertChat c1 (upsertChat c2 s)) j \<and>
         stored_preview (upsertChat c2 (upsertChat c1 s)) j =
           (case stored_preview s j of
              None \<Rightarrow> Some (lastMessage c2, max (lastMessageAt c1) (lastMessageAt c2))
            | Some (p0, t0) \<Rightarrow>
                if t0 < lastMessageAt c2
                then Some (lastMessage c2, max (lastMessageAt c1) (lastMessageAt c2))
                else Some (p0, t0)) \<and>
         (stored_preview s (jid c) = Some (p, t) \<longrightarrow> lastMessageAt c \<le> t \<longrightarrow>
            stored_preview (upsertChat c s) (jid c) = Some (p, t))"
  using assms by (auto simp: stored_preview_upsertChat split: option.splits)

text \<open>
  The theorem at two upserts on the empty store, and on a store that holds the
  conversation with an earlier timestamp, where a third upsert with a still earlier
  timestamp changes nothing.
\<close>

theorem upsertChat_order_independent_witness:
  "jid (preview_chat ''A'' ''x'' 1000) = ''A'' \<and> jid (preview_chat ''A'' ''y'' 2000) = ''A'' \<and>
   lastMessageAt (preview_chat ''A'' ''x'' 1000) < lastMessageAt (preview_chat ''A'' ''y'' 2000) \<and>
   stored_preview
     (upsertChat (preview_chat ''A'' ''y'' 2000)
       (upsertChat (preview_chat ''A'' ''x'' 1000) empty_store)) ''A'' = Some (''y'', 2000) \<and>
   stored_preview
     (upsertChat (preview_chat ''A'' ''x'' 1000)
       (upsertChat (preview_chat ''A'' ''y'' 2000) empty_store)) ''A'' = Some (''y'', 2000) \<and>
   stored_preview (upsertChat (preview_chat ''A'' ''w'' 500) empty_store) ''A'' =
     Some (''w'', 500) \<and>
   stored_preview
     (upsertChat (preview_chat ''A'' ''x'' 1000)
       (upsertChat (preview_chat ''A'' ''y'' 2000)
         (upsertChat (preview_chat ''A'' ''w'' 500) empty_store))) ''A'' = Some (''y'', 2000) \<and>
   stored_preview
     (upsertChat (preview_chat ''A'' ''v'' 300)
       (upsertChat (preview_chat ''A'' ''w'' 500) empty_store)) ''A'' = Some (''w'', 500)"
proof -
  let ?s = "upsertChat (preview_chat ''A'' ''w'' 500) empty_store"
  have h: "jid (preview_chat ''A'' ''x'' 1000) = ''A''"
    "jid (preview_chat ''A'' ''y'' 2000) = ''A''"
    "lastMessageAt (preview_chat ''A'' ''x'' 1000) < lastMessageAt (preview_chat ''A'' ''y'' 2000)"
    by (simp_all add: preview_chat_def)
  have e: "stored_preview empty_store ''A'' = None"
    "stored_preview ?s ''A'' = Some (''w'', 500)"
    "jid (preview_chat ''A'' ''v'' 300) = ''A''"
    "lastMessageAt (preview_chat ''A'' ''v'' 300) \<le> 500"
    by (simp_all add: stored_preview_def empty_store_def upsertChat_def preview_chat_def)
  from upsertChat_order_independent
      [OF h, of empty_store "preview_chat ''A'' ''x'' 1000" "''z''" 0]
    upsertChat_order_independent
      [OF h, of ?s "preview_chat ''A'' ''v'' 300" "''w''" 500] h e
  show ?thesis
    by (auto simp: preview_chat_def)
qed

text \<open>
  Claim C1 as stated fails on a store that holds the conversation with a later
  timestamp: after upserts at 1000 and 2000, in either order, the stored timestamp is
  the 5000 stored before and not \<open>max 1000 2000\<close>, and the preview is the stored one.
\<close>

theorem upsertChat_max_counterexample:
  "stored_preview
     (upsertChat (preview_chat ''A'' ''y'' 2000)
       (upsertChat (preview_chat ''A'' ''x'' 1000)
         (upsertChat (preview_chat ''A'' ''z'' 5000) empty_store))) ''A''
     = Some (''z'', 5000) \<and>
   stored_preview
     (upsertChat (preview_chat ''A'' ''x'' 1000)
       (upsertChat (preview_chat ''A'' ''y'' 2000)
         (upsertChat (preview_chat ''A'' ''z'' 5000) empty_store))) ''A''
     = Some (''z'', 5000) \<and>
   max (1000::int) 2000 \<noteq> 5000"
  by (simp add: stored_preview_def upsertChat_def preview_chat_def empty_store_def)

lemma map_of_insert_or_replace:
  "map_of (insert_or_replace k new rows) k' =
     (if k' = k then Some new else map_of rows k')"
  by (induction rows) (auto simp: insert_or_replace_def)

lemma distinct_insert_or_replace:
  "distinct (map fst rows) \<Longrightarrow> distinct (map fst (insert_or_replace k new rows))"
  by (induction rows) (auto simp: insert_or_replace_def)

lemma filter_key_absent:
  "map_of rows k = None \<Longrightarrow> filter (\<lambda>(k', v). k' \<noteq> k) rows = rows"
  by (induction rows) (auto split: if_splits)

lemma length_filter_key_present:
  "distinct (map fst rows) \<Longrightarrow> map_of rows k = Some old \<Longrightarrow>
   Suc (length (filter (\<lambda>(k', v). k' \<noteq> k) rows)) = length rows"
  by (induction rows) (auto simp: filter_key_absent map_of_eq_None_iff image_iff split: if_splits)

lemma count_filter_key_present:
  "distinct (map fst rows) \<Longrightarrow> map_of rows k = Some old \<Longrightarrow>
   length (filter P (filter (\<lambda>(k', v). k' \<noteq> k) rows)) + (if P (k, old) then 1 else 0) =
   length (filter P rows)"
proof (induction rows)
  case Nil
  then show ?case by simp
next
  case (Cons r rows)
  obtain k' v where r: "r = (k', v)" by (cases r)
  show ?case
  proof (cases "k' = k")
    case True
    with Cons.prems r have "map_of rows k = None" "v = old"
      by (auto simp: map_of_eq_None_iff image_iff)
    then show ?thesis using True r by (simp add: filter_key_absent)
  next
    case False
    with Cons r show ?thesis by auto
  qed
qed

text \<open>
  Claim C4, as the code has it. The primary key of \<open>messages\<close> is the message ID alone.
  \<open>upsertMessage\<close> stores under the ID of the message a row that holds its conversation,
  sender, sender name, body, timestamp, origin flag, status and type, whatever was stored
  before, and leaves the IDs unique. If the ID was stored, the number of rows is unchanged, and if it
  was stored for the same conversation, the message count of every conversation is
  unchanged. If the ID is new, there is one more row, counted for the conversation of
  the message only.
\<close>

theorem upsertMessage_replaces:
  assumes "distinct (map fst (messages s))"
  shows "map_of (messages (upsertMessage m s)) (msg_id m) =
           Some \<lparr>chat_jid = chatJid m, sender_jid = senderJid m,
                  sender_name = senderName m, m_body = body m, m_timestamp = timestamp m,
                  is_from_me = (if isFromMe m then 1 else 0), m_status = status m,
                  m_type = mtype m\<rparr> \<and>
         distinct (map fst (messages (upsertMessage m s))) \<and>
         (map_of (messages s) (msg_id m) = Some old \<longrightarrow>
            length (messages (upsertMessage m s)) = length (messages s) \<and>
            (chat_jid old = chatJid m \<longrightarrow>
               message_count (upsertMessage m s) c = message_count s c)) \<and>
         (map_of (messages s) (msg_id m) = None \<longrightarrow>
            length (messages (upsertMessage m s)) = length (messages s) + 1 \<and>
            message_count (upsertMessage m s) c =
              message_count s c + (if c = chatJid m then 1 else 0))"
proof -
  let ?P = "\<lambda>(i, row). chat_jid row = c"
  have a: "map_of (messages (upsertMessage m s)) (msg_id m) =
      Some \<lparr>chat_jid = chatJid m, sender_jid = senderJid m,
             sender_name = senderName m, m_body = body m, m_timestamp = timestamp m,
             is_from_me = (if isFromMe m then 1 else 0), m_status = status m,
             m_type = mtype m\<rparr>"
    by (simp add: upsertMessage_def map_of_insert_or_replace message_row_def)
  have b: "distinct (map fst (messages (upsertMessage m s)))"
    using assms by (simp add: upsertMessage_def distinct_insert_or_replace)
  have c: "length (messages (upsertMessage m s)) = length (messages s) \<and>
      (chat_jid old = chatJid m \<longrightarrow> message_count (upsertMessage m s) c = message_count s c)"
    if "map_of (messages s) (msg_id m) = Some old"
    using length_filter_key_present [OF assms that]
      count_filter_key_present [OF assms that, of ?P]
    by (auto simp: upsertMessage_def insert_or_replace_def message_count_def message_row_def)
  have d: "length (messages (upsertMessage m s)) = length (messages s) + 1 \<and>
      message_count (upsertMessage m s) c =
        message_count s c + (if c = chatJid m then 1 else 0)"
    if "map_of (messages s) (msg_id m) = None"
    using that
    by (auto simp: upsertMessage_def insert_or_replace_def message_count_def message_row_def
                   filter_key_absent)
  from a b c d show ?thesis by blast
qed

text \<open>
  The theorem at a redelivery with a new status, and at a message with a new ID.
\<close>

theorem upsertMessage_replaces_witness:
  "distinct (map fst (messages (upsertMessage (text_message ''m1'' ''A'' Sent) empty_store))) \<and>
   map_of (messages (upsertMessage (text_message ''m1'' ''A'' Sent) empty_store))
     (msg_id (text_message ''m1'' ''A'' Read)) =
     Some \<lparr>chat_jid = ''A'', sender_jid = ''A'', sender_name = ''+A'', m_body = ''hi'',
            m_timestamp = 1000, is_from_me = 0, m_status = Sent, m_type = Text\<rparr> \<and>
   chatJid (text_message ''m1'' ''A'' Read) = ''A'' \<and>
   map_of (messages
     (upsertMessage (text_message ''m1'' ''A'' Read)
       (upsertMessage (text_message ''m1'' ''A'' Sent) empty_store))) ''m1'' =
     Some \<lparr>chat_jid = ''A'', sender_jid = ''A'', sender_name = ''+A'', m_body = ''hi'',
            m_timestamp = 1000, is_from_me = 0, m_status = Read, m_type = Text\<rparr> \<and>
   message_count
     (upsertMessage (text_message ''m1'' ''A'' Read)
       (upsertMessage (text_message ''m1'' ''A'' Sent) empty_store)) ''A'' =
   message_count (upsertMessage (text_message ''m1'' ''A'' Sent) empty_store) ''A'' \<and>
   map_of (messages (upsertMessage (text_message ''m1'' ''A'' Sent) empty_store))
     (msg_id (text_message ''m2'' ''A'' Sent)) = None \<and>
   message_count
     (upsertMessage (text_message ''m2'' ''A'' Sent)
       (upsertMessage (text_message ''m1'' ''A'' Sent) empty_store)) ''A'' = 2"
proof -
  let ?s = "upsertMessage (text_message ''m1'' ''A'' Sent) empty_store"
  let ?m = "text_message ''m1'' ''A'' Read"
  let ?n = "text_message ''m2'' ''A'' Sent"
  let ?old = "\<lparr>chat_jid = ''A'', sender_jid = ''A'', sender_name = ''+A'', m_body = ''hi'',
    m_timestamp = 1000, is_from_me = 0, m_status = Sent, m_type = Text\<rparr>"
  have h: "distinct (map fst (messages ?s))"
    "map_of (messages ?s) (msg_id ?m) = Some ?old"
    "chat_jid ?old = chatJid ?m"
    "map_of (messages ?s) (msg_id ?n) = None"
    by (simp_all add: upsertMessage_def insert_or_replace_def text_message_def empty_store_def
          message_row_def jidToPhoneNumber_def)
  have i: "msg_id ?m = ''m1''" "chatJid ?m = ''A''" "senderJid ?m = ''A''"
    "senderName ?m = ''+A''" "body ?m = ''hi''" "timestamp ?m = 1000" "\<not> isFromMe ?m"
    "status ?m = Read" "mtype ?m = Text" "chatJid ?n = ''A''"
    "message_count ?s ''A'' = 1"
    by (simp_all add: text_message_def message_row_def upsertMessage_def insert_or_replace_def
          message_count_def empty_store_def jidToPhoneNumber_def)
  from upsertMessage_replaces [OF h(1), of ?m ?old "''A''"]
    upsertMessage_replaces [OF h(1), of ?n ?old "''A''"] h i
  show ?thesis by simp
qed

text \<open>
  Claim C4 as stated fails for a message whose ID is stored for another conversation:
  the row moves, and the count of the conversation that had it drops from 1 to 0.
\<close>

theorem upsertMessage_moves_counterexample:
  "map_of (messages (upsertMessage (text_message ''m1'' ''A'' Sent) empty_store)) ''m1'' \<noteq> None \<and>
   message_count (upsertMessage (text_message ''m1'' ''A'' Sent) empty_store) ''A'' = 1 \<and>
   message_count
     (upsertMessage (text_message ''m1'' ''B'' Sent)
       (upsertMessage (text_message ''m1'' ''A'' Sent) empty_store)) ''A'' = 0"
  by (simp add: upsertMessage_def insert_or_replace_def message_row_def text_message_def
        message_count_def empty_store_def)

text \<open>
  Claim C9, as the code has it. Every chat that \<open>getAllChats\<close> returns belongs to a row of
  \<open>chats\<close>, and its name is the first non-empty of the addressbook name, the notify name
  and the name stored in the row; it is the empty string when all three are empty.
\<close>

theorem getAllChats_names:
  assumes "c \<in> set (getAllChats s)"
  shows "\<exists>row. (jid c, row) \<in> set (chats s) \<and>
           name c = first_non_empty
             [case stored_name s (jid c) of None \<Rightarrow> [] | Some a \<Rightarrow> a,
              case stored_notify s (jid c) of None \<Rightarrow> [] | Some b \<Rightarrow> b,
              c_name row]"
proof -
  from assms obtain j row where
    "(j, row) \<in> set (chats s)" and c: "c = chat_of_row s (j, row)"
    by (auto simp: getAllChats_def)
  moreover have "jid c = j" using c by (simp add: chat_of_row_def)
  moreover have "name c = first_non_empty
             [case stored_name s j of None \<Rightarrow> [] | Some a \<Rightarrow> a,
              case stored_notify s j of None \<Rightarrow> [] | Some b \<Rightarrow> b,
              c_name row]"
    using c
    by (auto simp: chat_of_row_def contact_name_def str_or_def stored_name_def
                   stored_notify_def split: option.splits)
  ultimately show ?thesis by auto
qed

text \<open>
  The theorem at a conversation whose contact has both names.
\<close>

theorem getAllChats_names_witness:
  "\<lparr>jid = ''A'', name = ''Alice'', lastMessage = ''hi'', lastMessageAt = 1000,
     unreadCount = 0, isGroup = False\<rparr>
     \<in> set (getAllChats
         (upsertContact ''A'' ''Alice'' ''ali''
           (upsertChat (preview_chat ''A'' ''hi'' 1000) empty_store))) \<and>
   (\<exists>row. (''A'', row) \<in> set (chats
         (upsertContact ''A'' ''Alice'' ''ali''
           (upsertChat (preview_chat ''A'' ''hi'' 1000) empty_store))) \<and>
      ''Alice'' = first_non_empty [''Alice'', ''ali'', c_name row])"
proof -
  let ?s = "upsertContact ''A'' ''Alice'' ''ali''
    (upsertChat (preview_chat ''A'' ''hi'' 1000) empty_store)"
  let ?c = "\<lparr>jid = ''A'', name = ''Alice'', lastMessage = ''hi'', lastMessageAt = 1000,
     unreadCount = 0, isGroup = False\<rparr>"
  have h: "?c \<in> set (getAllChats ?s)"
    by (simp add: getAllChats_def upsertContact_def upsertChat_def preview_chat_def
          empty_store_def chat_of_row_def contact_name_def str_or_def)
  have n: "stored_name ?s ''A'' = Some ''Alice''" "stored_notify ?s ''A'' = Some ''ali''"
    by (simp_all add: stored_name_def stored_notify_def upsertContact_def upsertChat_def
          empty_store_def)
  from getAllChats_names [OF h] h n show ?thesis by simp
qed

text \<open>
  Claim C9 as stated fails: \<open>getAllChats\<close> does not fall back on the identifier. The
  conversation that sending "ok" to a new identifier creates has an empty stored name
  and no contact, and is listed with the empty name, where the fallback derived from the
  identifier is \<open>+B\<close>.
\<close>

theorem getAllChats_no_fallback_counterexample:
  "map name
     (getAllChats (db (snd
        (sendMessage 7 (Returns (Some (wa_text True ''B@s.whatsapp.net'' ''m9'' ''ok'' 0)))
           ''B@s.whatsapp.net'' ''ok'' connected_service)))) = [[]] \<and>
   jidToPhoneNumber ''B@s.whatsapp.net'' = ''+B''"
  by code_simp

section \<open>The connection handler\<close>

lemma connection_states_emit:
  "connection_states (emit now sig svc) =
     connection_states svc @ (case sig of ConnectionStateSignal st \<Rightarrow> [st] | _ \<Rightarrow> [])"
  by (simp add: connection_states_def emit_def)

lemma current_state_emit:
  "current_state (emit now (ConnectionStateSignal st) svc) = Some st"
  by (simp add: current_state_def connection_states_emit)

lemma connection_states_reconnects_update:
  "connection_states (svc\<lparr>reconnects := r\<rparr>) = connection_states svc"
  "connection_states (svc\<lparr>retryCount := n\<rparr>) = connection_states svc"
  by (simp_all add: connection_states_def)

lemma close_logged_out:
  "on_connection_update now (close_update (Some loggedOut)) svc =
     emit now (ConnectionStateSignal Disconnected) svc"
  by (simp add: on_connection_update_def close_update_def on_close_def truthy_def)

lemma close_exhausted:
  "maxRetries \<le> retryCount svc \<Longrightarrow>
   on_connection_update now (close_update code) svc =
     emit now (ConnectionStateSignal Disconnected) svc"
  by (simp add: on_connection_update_def close_update_def on_close_def truthy_def)

lemma close_retry:
  assumes "code \<noteq> Some loggedOut" and "retryCount svc < maxRetries"
  shows "retryCount (on_connection_update now (close_update code) svc) = retryCount svc + 1"
    and "current_state (on_connection_update now (close_update code) svc) = Some Connecting"
    and "reconnects (on_connection_update now (close_update code) svc) =
           reconnects svc @ [min (1000 * (int (retryCount svc) + 1)) 10000]"
  using assms
  by (simp_all add: on_connection_update_def close_update_def on_close_def truthy_def Let_def
        emit_def current_state_def connection_states_def)

lemma closes_snoc:
  "closes now (codes @ [code]) svc =
     on_connection_update now (close_update code) (closes now codes svc)"
  by (simp add: closes_def)

lemma closes_within_budget:
  assumes "Some loggedOut \<notin> set codes" and "retryCount svc + length codes \<le> maxRetries"
  shows "retryCount (closes now codes svc) = retryCount svc + length codes \<and>
         reconnects (closes now codes svc) =
           reconnects svc @
           map (\<lambda>i. 1000 * (int (retryCount svc) + int i)) [1..<Suc (length codes)] \<and>
         (codes \<noteq> [] \<longrightarrow> current_state (closes now codes svc) = Some Connecting)"
  using assms
proof (induction codes rule: rev_induct)
  case Nil
  then show ?case by (simp add: closes_def)
next
  case (snoc code codes)
  let ?svc = "closes now codes svc"
  from snoc have ih:
    "retryCount ?svc = retryCount svc + length codes"
    "reconnects ?svc = reconnects svc @
       map (\<lambda>i. 1000 * (int (retryCount svc) + int i)) [1..<Suc (length codes)]"
    by simp_all
  from snoc.prems have code: "code \<noteq> Some loggedOut" by auto
  from snoc.prems ih have lt: "retryCount ?svc < maxRetries" by simp
  from lt have "1000 * (int (retryCount ?svc) + 1) \<le> 10000"
    by (simp add: maxRetries_def)
  then have m: "min (1000 * (int (retryCount ?svc) + 1)) 10000 = 1000 * (int (retryCount ?svc) + 1)"
    by simp
  show ?case
    using close_retry [OF code lt, of now] ih m
    by (simp add: closes_snoc algebra_simps)
qed

text \<open>
  Claim C2, as the code has it. A close with the logged-out reason emits Disconnected
  and sets no reconnect timer, whatever the retry counter. Any other close with a counter
  below 5 increments the counter, emits Connecting and sets a reconnect timer of
  \<open>min (1000 * retryCount) 10000\<close> ms, with the incremented counter. Five such closes in a
  row from counter 0 set the timers 1000, 2000, 3000, 4000 and 5000, leave the counter at
  5 and the state Connecting; the sixth close emits Disconnected and sets no timer.
\<close>

theorem close_handling:
  "current_state (on_connection_update now (close_update (Some loggedOut)) svc) =
     Some Disconnected \<and>
   reconnects (on_connection_update now (close_update (Some loggedOut)) svc) = reconnects svc \<and>
   (code \<noteq> Some loggedOut \<longrightarrow> retryCount svc < 5 \<longrightarrow>
      retryCount (on_connection_update now (close_update code) svc) = retryCount svc + 1 \<and>
      current_state (on_connection_update now (close_update code) svc) = Some Connecting \<and>
      reconnects (on_connection_update now (close_update code) svc) =
        reconnects svc @ [min (1000 * (int (retryCount svc) + 1)) 10000]) \<and>
   (length codes = 5 \<longrightarrow> Some loggedOut \<notin> set codes \<longrightarrow> retryCount svc0 = 0 \<longrightarrow>
      retryCount (closes now codes svc0) = 5 \<and>
      current_state (closes now codes svc0) = Some Connecting \<and>
      reconnects (closes now codes svc0) =
        reconnects svc0 @ [1000, 2000, 3000, 4000, 5000] \<and>
      current_state (on_connection_update now (close_update code6) (closes now codes svc0)) =
        Some Disconnected \<and>
      reconnects (on_connection_update now (close_update code6) (closes now codes svc0)) =
        reconnects (closes now codes svc0))"
proof -
  have a: "current_state (on_connection_update now (close_update (Some loggedOut)) svc) =
      Some Disconnected"
    by (simp add: close_logged_out current_state_emit)
  have b: "reconnects (on_connection_update now (close_update (Some loggedOut)) svc) =
      reconnects svc"
    by (simp add: close_logged_out emit_def)
  have c: "retryCount (on_connection_update now (close_update code) svc) = retryCount svc + 1 \<and>
      current_state (on_connection_update now (close_update code) svc) = Some Connecting \<and>
      reconnects (on_connection_update now (close_update code) svc) =
        reconnects svc @ [min (1000 * (int (retryCount svc) + 1)) 10000]"
    if "code \<noteq> Some loggedOut" "retryCount svc < 5"
    using close_retry [of code svc now] that by (simp add: maxRetries_def)
  have d: "retryCount (closes now codes svc0) = 5 \<and>
      current_state (closes now codes svc0) = Some Connecting \<and>
      reconnects (closes now codes svc0) =
        reconnects svc0 @ [1000, 2000, 3000, 4000, 5000] \<and>
      current_state (on_connection_update now (close_update code6) (closes now codes svc0)) =
        Some Disconnected \<and>
      reconnects (on_connection_update now (close_update code6) (closes now codes svc0)) =
        reconnects (closes now codes svc0)"
    if "length codes = 5" "Some loggedOut \<notin> set codes" "retryCount svc0 = 0"
  proof -
    have "[1..<6] = [1, 2, 3, 4, 5::nat]"
      by (simp add: upt_rec)
    with closes_within_budget [of codes svc0 now] that
    have five: "retryCount (closes now codes svc0) = 5"
      "current_state (closes now codes svc0) = Some Connecting"
      "reconnects (closes now codes svc0) = reconnects svc0 @ [1000, 2000, 3000, 4000, 5000]"
      by (auto simp: maxRetries_def)
    then have "maxRetries \<le> retryCount (closes now codes svc0)"
      by (simp add: maxRetries_def)
    from close_exhausted [OF this, of now code6]
    have six: "on_connection_update now (close_update code6) (closes now codes svc0) =
        emit now (ConnectionStateSignal Disconnected) (closes now codes svc0)" .
    have "current_state (on_connection_update now (close_update code6) (closes now codes svc0)) =
        Some Disconnected"
      unfolding six by (rule current_state_emit)
    moreover have "reconnects (on_connection_update now (close_update code6)
        (closes now codes svc0)) = reconnects (closes now codes svc0)"
      unfolding six by (simp add: emit_def)
    ultimately show ?thesis using five by simp
  qed
  from a b c d show ?thesis by blast
qed

text \<open>
  The theorem on a new service.
\<close>

theorem close_handling_witness:
  "None \<noteq> Some loggedOut \<and> retryCount new_service < 5 \<and>
   length [None, None, None, None, None :: int option] = 5 \<and>
   Some loggedOut \<notin> set [None, None, None, None, None] \<and>
   retryCount new_service = 0 \<and>
   current_state (on_connection_update 0 (close_update (Some loggedOut)) new_service) =
     Some Disconnected \<and>
   reconnects (on_connection_update 0 (close_update None) new_service) = [1000] \<and>
   reconnects (closes 0 [None, None, None, None, None] new_service) =
     [1000, 2000, 3000, 4000, 5000] \<and>
   current_state (on_connection_update 0 (close_update None)
     (closes 0 [None, None, None, None, None] new_service)) = Some Disconnected"
proof -
  have h: "None \<noteq> Some loggedOut" "retryCount new_service < 5"
    "length [None, None, None, None, None :: int option] = 5"
    "Some loggedOut \<notin> set [None, None, None, None, None]"
    "retryCount new_service = 0" "reconnects new_service = []"
    by (simp_all add: new_service_def)
  from close_handling
    [of 0 new_service None "[None, None, None, None, None]" new_service None] h
  show ?thesis by simp
qed

text \<open>
  Claim C2 as stated fails in one part: after five closes in a row the state is
  Connecting, with the fifth reconnect pending; it is the sixth close that lands in
  Disconnected.
\<close>

theorem close_after_five_counterexample:
  "current_state (closes 0 [None, None, None, None, None] new_service) = Some Connecting \<and>
   current_state (closes 0 [None, None, None, None, None] new_service) \<noteq> Some Disconnected \<and>
   current_state (closes 0 [None, None, None, None, None, None] new_service)
     = Some Disconnected"
  by code_simp

section \<open>Content extraction\<close>






text \<open>
  Claim C10 fails on the code in its second half. Key distribution beside a text
  extracts to the text, but key distribution beside an image extracts to the empty
  body: the check looks at \<open>conversation\<close> and \<open>extendedTextMessage\<close> only. The same image
  without key distribution extracts to its caption.
\<close>

theorem key_distribution_drops_image:
  "extractContent
     (Some (leaf_content
        (no_leaf\<lparr>senderKeyDistributionMessage := True, imageMessage := Some (Some ''cat'')\<rparr>)))
     = ([], Unknown) \<and>
   extractContent (Some (leaf_content (no_leaf\<lparr>imageMessage := Some (Some ''cat'')\<rparr>)))
     = (''cat'', Image) \<and>
   extractContent
     (Some (leaf_content
        (no_leaf\<lparr>senderKeyDistributionMessage := True, conversation := Some ''hi''\<rparr>)))
     = (''hi'', Text) \<and>
   extractContent
     (Some (leaf_content
        (no_leaf\<lparr>senderKeyDistributionMessage := True,
                  extendedTextMessage := Some (Some ''hi'')\<rparr>)))
     = (''hi'', Text)"
  by code_simp

section \<open>Incoming and outgoing messages\<close>

text \<open>
  Claim C6 fails on the code. The handler upserts the chat with \<open>unreadCount = 0\<close>, which
  overwrites the stored counter, before it increments: a conversation with one unread
  message has one unread message after the next incoming message too, and none after a
  message of the owner.
\<close>

theorem unread_reset_before_increment:
  "unread_of
     (messages_upsert 2000 [wa_text False ''A@s.whatsapp.net'' ''m1'' ''hi'' 1] new_service)
     ''A@s.whatsapp.net'' = Some 1 \<and>
   unread_of
     (messages_upsert 3000 [wa_text False ''A@s.whatsapp.net'' ''m2'' ''there'' 2]
       (messages_upsert 2000 [wa_text False ''A@s.whatsapp.net'' ''m1'' ''hi'' 1] new_service))
     ''A@s.whatsapp.net'' = Some 1 \<and>
   unread_of
     (messages_upsert 4000 [wa_text True ''A@s.whatsapp.net'' ''m3'' ''ok'' 3]
       (messages_upsert 2000 [wa_text False ''A@s.whatsapp.net'' ''m1'' ''hi'' 1] new_service))
     ''A@s.whatsapp.net'' = Some 0"
  by code_simp

lemma messages_upsertChat: "messages (upsertChat c s) = messages s"
  by (simp add: upsertChat_def)

lemma map_of_messages_upsertMessage:
  "map_of (messages (upsertMessage m s)) (msg_id m) =
     Some \<lparr>chat_jid = chatJid m, sender_jid = senderJid m,
            sender_name = senderName m, m_body = body m, m_timestamp = timestamp m,
            is_from_me = (if isFromMe m then 1 else 0), m_status = status m,
            m_type = mtype m\<rparr>"
  by (simp add: upsertMessage_def map_of_insert_or_replace message_row_def)

lemma chats_upsertMessage: "chats (upsertMessage m s) = chats s"
  by (simp add: upsertMessage_def)

lemma chats_upsertChat_cong:
  "chats s = chats s' \<Longrightarrow> chats (upsertChat c s) = chats (upsertChat c s')"
  by (simp add: upsertChat_def)

lemma stored_preview_cong:
  "chats s = chats s' \<Longrightarrow> stored_preview s j = stored_preview s' j"
  by (simp add: stored_preview_def)

text \<open>
  Claim C7. With a socket and a message returned by the transport, \<open>sendMessage\<close>
  returns a message from the owner with status Sent and the text as body, stores under
  its ID a row with the destination as conversation, the owner as origin
  (\<open>is_from_me = 1\<close>), status Sent, type Text, the text as body and the time of sending,
  and upserts the chat of the destination with the text as preview through
  \<open>upsertChat\<close>, the merge that incoming messages go through: a new conversation gets the
  text, a stored one gets it if its timestamp is below the time of sending. When the
  transport throws or returns nothing, or there is no socket, the result is \<open>None\<close> and
  the service, with its store, is unchanged.
\<close>

theorem sendMessage_outcomes:
  "(sock svc \<longrightarrow>
      (\<exists>msg svc'. sendMessage now (Returns (Some sent)) j t svc = (Some msg, svc') \<and>
         isFromMe msg \<and> status msg = Sent \<and> body msg = t \<and> chatJid msg = j \<and>
         timestamp msg = now \<and> mtype msg = Text \<and>
         map_of (messages (db svc')) (msg_id msg) =
           Some \<lparr>chat_jid = j, sender_jid = ''me'', sender_name = ''You'', m_body = t,
                  m_timestamp = now, is_from_me = 1, m_status = Sent, m_type = Text\<rparr> \<and>
         chats (db svc') =
           chats (upsertChat \<lparr>jid = j, name = [], lastMessage = t, lastMessageAt = now,
                              unreadCount = 0, isGroup = isGroupJid j\<rparr> (db svc)) \<and>
         stored_preview (db svc') j =
           (case stored_preview (db svc) j of
              None \<Rightarrow> Some (t, now)
            | Some (p0, t0) \<Rightarrow> if t0 < now then Some (t, now) else Some (p0, t0)))) \<and>
   sendMessage now Throws j t svc = (None, svc) \<and>
   sendMessage now (Returns None) j t svc = (None, svc) \<and>
   (\<not> sock svc \<longrightarrow> sendMessage now outcome j t svc = (None, svc))"
proof -
  define msg where "msg =
    \<lparr>msg_id = opt_or (key_id (key sent)) (''local-'' @ show_int now),
     chatJid = j, senderJid = ''me'', senderName = ''You'', body = t,
     timestamp = now, isFromMe = True, status = Sent, mtype = Text\<rparr>"
  define chat where "chat =
    \<lparr>jid = j, name = [], lastMessage = t, lastMessageAt = now,
     unreadCount = 0, isGroup = isGroupJid j\<rparr>"
  define s' where "s' = upsertChat chat (upsertMessage msg (db svc))"
  have sent: "sendMessage now (Returns (Some sent)) j t svc = (Some msg, svc\<lparr>db := s'\<rparr>)"
    if "sock svc"
    using that by (simp add: sendMessage_def msg_def chat_def s'_def Let_def)
  have m: "isFromMe msg" "status msg = Sent" "body msg = t" "chatJid msg = j"
    "timestamp msg = now" "mtype msg = Text"
    by (simp_all add: msg_def)
  have "map_of (messages s') (msg_id msg) =
      Some \<lparr>chat_jid = chatJid msg, sender_jid = senderJid msg,
             sender_name = senderName msg, m_body = body msg, m_timestamp = timestamp msg,
             is_from_me = (if isFromMe msg then 1 else 0), m_status = status msg,
             m_type = mtype msg\<rparr>"
    by (simp add: s'_def messages_upsertChat map_of_messages_upsertMessage)
  then have stored: "map_of (messages s') (msg_id msg) =
      Some \<lparr>chat_jid = j, sender_jid = ''me'', sender_name = ''You'', m_body = t,
             m_timestamp = now, is_from_me = 1, m_status = Sent, m_type = Text\<rparr>"
    by (simp add: msg_def)
  have chats: "chats s' = chats (upsertChat chat (db svc))"
    unfolding s'_def by (rule chats_upsertChat_cong) (rule chats_upsertMessage)
  have "stored_preview s' j = stored_preview (upsertChat chat (db svc)) j"
    using chats by (rule stored_preview_cong)
  also have "\<dots> = (case stored_preview (db svc) j of
      None \<Rightarrow> Some (t, now)
    | Some (p0, t0) \<Rightarrow> if t0 < now then Some (t, now) else Some (p0, t0))"
    by (auto simp: stored_preview_upsertChat chat_def split: option.splits)
  finally have preview: "stored_preview s' j = (case stored_preview (db svc) j of
      None \<Rightarrow> Some (t, now)
    | Some (p0, t0) \<Rightarrow> if t0 < now then Some (t, now) else Some (p0, t0))" .
  have success: "\<exists>msg svc'. sendMessage now (Returns (Some sent)) j t svc = (Some msg, svc') \<and>
         isFromMe msg \<and> status msg = Sent \<and> body msg = t \<and> chatJid msg = j \<and>
         timestamp msg = now \<and> mtype msg = Text \<and>
         map_of (messages (db svc')) (msg_id msg) =
           Some \<lparr>chat_jid = j, sender_jid = ''me'', sender_name = ''You'', m_body = t,
                  m_timestamp = now, is_from_me = 1, m_status = Sent, m_type = Text\<rparr> \<and>
         chats (db svc') =
           chats (upsertChat \<lparr>jid = j, name = [], lastMessage = t, lastMessageAt = now,
                              unreadCount = 0, isGroup = isGroupJid j\<rparr> (db svc)) \<and>
         stored_preview (db svc') j =
           (case stored_preview (db svc) j of
              None \<Rightarrow> Some (t, now)
            | Some (p0, t0) \<Rightarrow> if t0 < now then Some (t, now) else Some (p0, t0))"
    if "sock svc"
    using sent [OF that] m stored chats preview unfolding chat_def by simp
  have failure: "sendMessage now Throws j t svc = (None, svc)"
    "sendMessage now (Returns None) j t svc = (None, svc)"
    by (simp_all add: sendMessage_def)
  have no_sock: "sendMessage now outcome j t svc = (None, svc)" if "\<not> sock svc"
    using that by (simp add: sendMessage_def)
  from success failure no_sock show ?thesis by blast
qed

text \<open>
  The theorem at sending "ok" to a conversation that is not stored, and at a service
  without a socket.
\<close>

theorem sendMessage_outcomes_witness:
  "sock connected_service \<and>
   stored_preview (db connected_service) ''B@s.whatsapp.net'' = None \<and>
   (\<exists>msg svc'.
      sendMessage 7 (Returns (Some (wa_text True ''B@s.whatsapp.net'' ''m9'' ''ok'' 0)))
        ''B@s.whatsapp.net'' ''ok'' connected_service = (Some msg, svc') \<and>
      isFromMe msg \<and> status msg = Sent \<and>
      map_of (messages (db svc')) (msg_id msg) =
        Some \<lparr>chat_jid = ''B@s.whatsapp.net'', sender_jid = ''me'', sender_name = ''You'',
               m_body = ''ok'', m_timestamp = 7, is_from_me = 1, m_status = Sent,
               m_type = Text\<rparr> \<and>
      stored_preview (db svc') ''B@s.whatsapp.net'' = Some (''ok'', 7)) \<and>
   sendMessage 7 Throws ''B@s.whatsapp.net'' ''ok'' connected_service =
     (None, connected_service) \<and>
   \<not> sock new_service \<and>
   sendMessage 7 (Returns (Some (wa_text True ''B@s.whatsapp.net'' ''m9'' ''ok'' 0)))
     ''B@s.whatsapp.net'' ''ok'' new_service = (None, new_service)"
proof -
  have h: "sock connected_service"
    "stored_preview (db connected_service) ''B@s.whatsapp.net'' = None"
    "\<not> sock new_service"
    by (simp_all add: connected_service_def new_service_def stored_preview_def empty_store_def)
  from sendMessage_outcomes
      [of connected_service 7 "wa_text True ''B@s.whatsapp.net'' ''m9'' ''ok'' 0"
          "''B@s.whatsapp.net''" "''ok''"]
    sendMessage_outcomes
      [of new_service 7 "wa_text True ''B@s.whatsapp.net'' ''m9'' ''ok'' 0"
          "''B@s.whatsapp.net''" "''ok''"
          "Returns (Some (wa_text True ''B@s.whatsapp.net'' ''m9'' ''ok'' 0))"] h
  show ?thesis by auto
qed

section \<open>The debounced notification\<close>

lemma notify_calls_rapid:
  "ts \<noteq> [] \<Longrightarrow> rapid ts \<Longrightarrow> (\<forall>due. chatUpdateTimer svc = Some due \<longrightarrow> hd ts < due) \<Longrightarrow>
   emitted (notify_calls ts svc) = emitted svc \<and>
   chatUpdateTimer (notify_calls ts svc) = Some (last ts + 300)"
proof (induction ts arbitrary: svc)
  case Nil
  then show ?case by simp
next
  case (Cons t ts)
  let ?svc = "notifyChatsChanged t (run_due_timer t svc)"
  from Cons.prems(3) have idle: "run_due_timer t svc = svc"
    by (auto simp: run_due_timer_def split: option.splits)
  then have svc': "emitted ?svc = emitted svc" "chatUpdateTimer ?svc = Some (t + 300)"
    by (simp_all add: notifyChatsChanged_def)
  have step: "notify_calls (t # ts) svc = notify_calls ts ?svc"
    by (simp add: notify_calls_def)
  show ?case
  proof (cases "ts = []")
    case True
    with svc' show ?thesis
      by (simp add: notify_calls_def)
  next
    case False
    then obtain u us where ts: "ts = u # us" by (cases ts) auto
    with Cons.prems(2) have "rapid ts" "hd ts - t < 300" by simp_all
    then have "\<forall>due. chatUpdateTimer ?svc = Some due \<longrightarrow> hd ts < due"
      using svc' by simp
    with Cons.IH [OF False \<open>rapid ts\<close>, of ?svc]
    have "emitted (notify_calls ts ?svc) = emitted ?svc \<and>
        chatUpdateTimer (notify_calls ts ?svc) = Some (last ts + 300)"
      by blast
    moreover have "last (t # ts) = last ts" using False by simp
    ultimately show ?thesis
      unfolding step using svc' by simp
  qed
qed

text \<open>
  Claim C8. Starting with no timer pending, one or more calls of \<open>notifyChatsChanged\<close>,
  each less than 300 ms after the one before, emit nothing while they arrive. The signal
  is emitted once, 300 ms after the last call: when the event loop has reached a time
  \<open>T\<close>, the signal has been emitted if and only if \<open>T\<close> is at least 300 ms after the last
  call, and nothing more is emitted later.
\<close>

theorem notifyChatsChanged_debounce:
  assumes "ts \<noteq> []" and "rapid ts" and "chatUpdateTimer svc = None"
  shows "emitted (notify_calls ts svc) = emitted svc \<and>
         chats_changed_times (run_due_timer T (notify_calls ts svc)) =
           chats_changed_times svc @ (if last ts + 300 \<le> T then [last ts + 300] else []) \<and>
         (last ts + 300 \<le> T \<longrightarrow> T \<le> T' \<longrightarrow>
            run_due_timer T' (run_due_timer T (notify_calls ts svc)) =
              run_due_timer T (notify_calls ts svc))"
proof -
  from notify_calls_rapid [OF assms(1,2), of svc] assms(3)
  have *: "emitted (notify_calls ts svc) = emitted svc"
    "chatUpdateTimer (notify_calls ts svc) = Some (last ts + 300)"
    by simp_all
  then show ?thesis
    by (simp add: run_due_timer_def chats_changed_times_def emit_def)
qed

text \<open>
  The theorem at four calls within 500 ms: no signal up to 799, one signal at 800, and
  no second one later.
\<close>

theorem notifyChatsChanged_debounce_witness:
  "[0, 100, 250, 500] \<noteq> ([] :: int list) \<and> rapid [0, 100, 250, 500] \<and>
   chatUpdateTimer new_service = None \<and>
   emitted (notify_calls [0, 100, 250, 500] new_service) = [] \<and>
   chats_changed_times (run_due_timer 799 (notify_calls [0, 100, 250, 500] new_service)) = [] \<and>
   chats_changed_times (run_due_timer 800 (notify_calls [0, 100, 250, 500] new_service)) = [800] \<and>
   chats_changed_times
     (run_due_timer 2000 (run_due_timer 800 (notify_calls [0, 100, 250, 500] new_service)))
     = [800]"
proof -
  have h: "[0, 100, 250, 500] \<noteq> ([] :: int list)" "rapid [0, 100, 250, 500]"
    "chatUpdateTimer new_service = None"
    by (simp_all add: new_service_def)
  have e: "emitted new_service = []" "chats_changed_times new_service = []"
    by (simp_all add: new_service_def chats_changed_times_def)
  from notifyChatsChanged_debounce [OF h, of 799 0]
    notifyChatsChanged_debounce [OF h, of 800 2000] h e
  show ?thesis by simp
qed

end
